theory Spec2Isabelle
  imports Complex_Main
begin

section \<open>Python values\<close>

text \<open>
  A Python float is modelled as a finite value or one of the IEEE special values. A finite
  value is idealised as a real number: rounding, overflow and the sign of zero are not
  modelled. A field that may hold \<^verbatim>\<open>None\<close> has type \<open>pyfloat option\<close>.
\<close>

datatype pyfloat = Fin real | PInf | NInf | NaN

text \<open>
  The exceptions of the source. \<open>ValueError\<close> carries its message, which tells the
  "non-None" checks from the "invalid type" checks. \<open>ComplexResult\<close> is not an exception:
  it marks the one place where Python leaves the floats (a negative base raised to a
  non-integer power is a complex number), which this model does not follow further.
\<close>

datatype error = ValueError string | ZeroDivisionError | TypeError | ComplexResult

definition err_bind :: "error + 'a \<Rightarrow> ('a \<Rightarrow> error + 'b) \<Rightarrow> error + 'b" where
  "err_bind m f = (case m of Inl e \<Rightarrow> Inl e | Inr x \<Rightarrow> f x)"

subsection \<open>Arithmetic on floats\<close>

definition inf_of :: "real \<Rightarrow> pyfloat" where
  "inf_of a = (if 0 < a then PInf else if a < 0 then NInf else NaN)"

fun fl_neg :: "pyfloat \<Rightarrow> pyfloat" where
  "fl_neg (Fin a) = Fin (- a)"
| "fl_neg PInf = NInf"
| "fl_neg NInf = PInf"
| "fl_neg NaN = NaN"

fun fl_add :: "pyfloat \<Rightarrow> pyfloat \<Rightarrow> pyfloat" where
  "fl_add (Fin a) (Fin b) = Fin (a + b)"
| "fl_add NaN _ = NaN"
| "fl_add _ NaN = NaN"
| "fl_add PInf NInf = NaN"
| "fl_add NInf PInf = NaN"
| "fl_add PInf _ = PInf"
| "fl_add _ PInf = PInf"
| "fl_add NInf _ = NInf"
| "fl_add _ NInf = NInf"

definition fl_sub :: "pyfloat \<Rightarrow> pyfloat \<Rightarrow> pyfloat" where
  "fl_sub a b = fl_add a (fl_neg b)"

fun fl_mul :: "pyfloat \<Rightarrow> pyfloat \<Rightarrow> pyfloat" where
  "fl_mul (Fin a) (Fin b) = Fin (a * b)"
| "fl_mul NaN _ = NaN"
| "fl_mul _ NaN = NaN"
| "fl_mul PInf (Fin b) = inf_of b"
| "fl_mul (Fin a) PInf = inf_of a"
| "fl_mul NInf (Fin b) = inf_of (- b)"
| "fl_mul (Fin a) NInf = inf_of (- a)"
| "fl_mul PInf PInf = PInf"
| "fl_mul NInf NInf = PInf"
| "fl_mul PInf NInf = NInf"
| "fl_mul NInf PInf = NInf"

text \<open>Division of numpy floats: a zero divisor gives an infinity or NaN, with a warning only.\<close>

fun np_div :: "pyfloat \<Rightarrow> pyfloat \<Rightarrow> pyfloat" where
  "np_div (Fin a) (Fin b) = (if b = 0 then inf_of a else Fin (a / b))"
| "np_div NaN _ = NaN"
| "np_div _ NaN = NaN"
| "np_div (Fin a) PInf = Fin 0"
| "np_div (Fin a) NInf = Fin 0"
| "np_div PInf (Fin b) = (if b < 0 then NInf else PInf)"
| "np_div NInf (Fin b) = (if b < 0 then PInf else NInf)"
| "np_div PInf PInf = NaN"
| "np_div PInf NInf = NaN"
| "np_div NInf PInf = NaN"
| "np_div NInf NInf = NaN"

text \<open>Division of Python floats: a zero divisor raises \<^verbatim>\<open>ZeroDivisionError\<close>.\<close>

definition py_div :: "pyfloat \<Rightarrow> pyfloat \<Rightarrow> error + pyfloat" where
  "py_div a b = (if b = Fin 0 then Inl ZeroDivisionError else Inr (np_div a b))"

text \<open>\<^verbatim>\<open>x ** n\<close> for a literal natural exponent (the source uses \<^verbatim>\<open>** 2\<close>).\<close>

primrec fl_pow_int :: "pyfloat \<Rightarrow> nat \<Rightarrow> pyfloat" where
  "fl_pow_int x 0 = Fin 1"
| "fl_pow_int x (Suc n) = fl_mul x (fl_pow_int x n)"

text \<open>
  \<^verbatim>\<open>v ** w\<close> on Python floats, with the special cases of CPython's \<^verbatim>\<open>float_pow\<close>, in
  its order: a zero exponent gives 1; a NaN base gives NaN; a NaN exponent gives NaN unless
  the base is 1; an infinite exponent; an infinite base; a zero base (a negative exponent
  raises); a negative base (a non-integer exponent leaves the floats).
\<close>

definition odd_integer :: "real \<Rightarrow> bool" where
  "odd_integer w = (w = of_int \<lfloor>w\<rfloor> \<and> odd \<lfloor>w\<rfloor>)"

fun py_pow :: "pyfloat \<Rightarrow> pyfloat \<Rightarrow> error + pyfloat" where
  "py_pow v (Fin w) =
     (if w = 0 then Inr (Fin 1)
      else case v of
        NaN \<Rightarrow> Inr NaN
      | PInf \<Rightarrow> Inr (if 0 < w then PInf else Fin 0)
      | NInf \<Rightarrow> Inr (if 0 < w then (if odd_integer w then NInf else PInf) else Fin 0)
      | Fin a \<Rightarrow>
          if a = 0 then (if w < 0 then Inl ZeroDivisionError else Inr (Fin 0))
          else if a < 0 then
            (if w = of_int \<lfloor>w\<rfloor> then Inr (Fin (a powi \<lfloor>w\<rfloor>)) else Inl ComplexResult)
          else Inr (Fin (a powr w)))"
| "py_pow v NaN = (if v = Fin 1 then Inr (Fin 1) else Inr NaN)"
| "py_pow v PInf =
     (case v of
        NaN \<Rightarrow> Inr NaN
      | Fin a \<Rightarrow> Inr (if \<bar>a\<bar> = 1 then Fin 1 else if 1 < \<bar>a\<bar> then PInf else Fin 0)
      | _ \<Rightarrow> Inr PInf)"
| "py_pow v NInf =
     (case v of
        NaN \<Rightarrow> Inr NaN
      | Fin a \<Rightarrow> Inr (if \<bar>a\<bar> = 1 then Fin 1 else if 1 < \<bar>a\<bar> then Fin 0 else PInf)
      | _ \<Rightarrow> Inr (Fin 0))"

fun np_log :: "pyfloat \<Rightarrow> pyfloat" where
  "np_log (Fin a) = (if 0 < a then Fin (ln a) else if a = 0 then NInf else NaN)"
| "np_log PInf = PInf"
| "np_log NInf = NaN"
| "np_log NaN = NaN"

fun np_sqrt :: "pyfloat \<Rightarrow> pyfloat" where
  "np_sqrt (Fin a) = (if 0 \<le> a then Fin (sqrt a) else NaN)"
| "np_sqrt PInf = PInf"
| "np_sqrt NInf = NaN"
| "np_sqrt NaN = NaN"

fun np_exp :: "pyfloat \<Rightarrow> pyfloat" where
  "np_exp (Fin a) = Fin (exp a)"
| "np_exp PInf = PInf"
| "np_exp NInf = Fin 0"
| "np_exp NaN = NaN"

text \<open>Comparisons: every comparison with NaN is false.\<close>

fun fl_le :: "pyfloat \<Rightarrow> pyfloat \<Rightarrow> bool" where
  "fl_le (Fin a) (Fin b) = (a \<le> b)"
| "fl_le NaN _ = False"
| "fl_le _ NaN = False"
| "fl_le NInf _ = True"
| "fl_le _ PInf = True"
| "fl_le PInf _ = False"
| "fl_le _ NInf = False"

definition fl_ge :: "pyfloat \<Rightarrow> pyfloat \<Rightarrow> bool" where
  "fl_ge a b = fl_le b a"

definition fl_gt :: "pyfloat \<Rightarrow> pyfloat \<Rightarrow> bool" where
  "fl_gt a b = (fl_le b a \<and> a \<noteq> b)"

text \<open>Python's \<^verbatim>\<open>max(a, b)\<close> keeps \<open>a\<close> unless \<open>b > a\<close>.\<close>

definition py_max :: "pyfloat \<Rightarrow> pyfloat \<Rightarrow> pyfloat" where
  "py_max a b = (if fl_gt b a then b else a)"

subsection \<open>The standard normal distribution function\<close>

text \<open>
  \<^verbatim>\<open>scipy.stats.norm.cdf\<close> is the standard normal distribution function
  \<open>\<Phi>(x) = (1 + erf (x / \<surd>2)) / 2\<close>; the error function is given by its Maclaurin series
  \<open>erf x = 2/\<surd>\<pi> \<cdot> \<Sum>n. (-1)^n x^(2n+1) / (n! (2n+1))\<close>.
\<close>

definition erf_term :: "real \<Rightarrow> nat \<Rightarrow> real" where
  "erf_term x n = (- 1) ^ n * x ^ (2 * n + 1) / (fact n * real (2 * n + 1))"

definition erf :: "real \<Rightarrow> real" where
  "erf x = 2 / sqrt pi * (\<Sum>n. erf_term x n)"

definition norm_cdf :: "real \<Rightarrow> real" where
  "norm_cdf x = (1 + erf (x / sqrt 2)) / 2"

fun cdf :: "pyfloat \<Rightarrow> pyfloat" where
  "cdf (Fin a) = Fin (norm_cdf a)"
| "cdf PInf = Fin 1"
| "cdf NInf = Fin 0"
| "cdf NaN = NaN"


section \<open>The pricing engine\<close>

text \<open>
  The instance state of class \<^verbatim>\<open>AdvancedDerivativesPricing\<close>: five fields, each of which
  the methods test against \<^verbatim>\<open>None\<close>.
\<close>

record pricer =
  S :: "pyfloat option"
  K :: "pyfloat option"
  T :: "pyfloat option"
  r :: "pyfloat option"
  sigma :: "pyfloat option"

text \<open>The constructor \<^verbatim>\<open>__init__\<close> stores its five arguments.\<close>

definition AdvancedDerivativesPricing ::
  "pyfloat option \<Rightarrow> pyfloat option \<Rightarrow> pyfloat option \<Rightarrow> pyfloat option \<Rightarrow> pyfloat option \<Rightarrow> pricer" where
  "AdvancedDerivativesPricing S0 K0 T0 r0 sigma0 =
     \<lparr>S = S0, K = K0, T = T0, r = r0, sigma = sigma0\<rparr>"

subsection \<open>Black-Scholes parameters\<close>

text \<open>
  \<^verbatim>\<open>_d1\<close>: \<^verbatim>\<open>(np.log(S / K) + (r + 0.5 * sigma**2) * T) / (sigma * np.sqrt(T))\<close>.
  \<^verbatim>\<open>S / K\<close> divides Python floats and raises on a zero strike; the outer division is a
  numpy division.
\<close>

definition pricer_d1 :: "pyfloat \<Rightarrow> pyfloat \<Rightarrow> pyfloat \<Rightarrow> pyfloat \<Rightarrow> pyfloat \<Rightarrow> error + pyfloat" where
  "pricer_d1 S0 K0 T0 r0 sigma0 =
     err_bind (py_div S0 K0) (\<lambda>q.
       Inr (np_div
              (fl_add (np_log q) (fl_mul (fl_add r0 (fl_mul (Fin 0.5) (fl_pow_int sigma0 2))) T0))
              (fl_mul sigma0 (np_sqrt T0))))"

text \<open>\<^verbatim>\<open>_d2\<close>: \<^verbatim>\<open>d1 - sigma * np.sqrt(T)\<close>.\<close>

definition pricer_d2 :: "pyfloat \<Rightarrow> pyfloat \<Rightarrow> pyfloat \<Rightarrow> pyfloat" where
  "pricer_d2 d1 sigma0 T0 = fl_sub d1 (fl_mul sigma0 (np_sqrt T0))"

subsection \<open>Barrier options\<close>

text \<open>
  Three subexpressions that the eight return statements of \<^verbatim>\<open>price_barrier_option\<close>
  share:
  \<^item> \<^verbatim>\<open>self.S * norm.cdf(d1) - self.K * np.exp(-self.r * self.T) * norm.cdf(d2)\<close>;
  \<^item> \<^verbatim>\<open>self.K * np.exp(-self.r * self.T) * norm.cdf(-d2) - self.S * norm.cdf(-d1)\<close>;
  \<^item> \<^verbatim>\<open>self.S * (barrier / self.S)**(2 * lambda_)\<close>, where the quotient
    \<^verbatim>\<open>barrier / self.S\<close> has been computed before (for \<^verbatim>\<open>y1\<close>) and is passed in;
    the power is the only operation of a return statement that can raise.
\<close>

definition call_expr :: "pyfloat \<Rightarrow> pyfloat \<Rightarrow> pyfloat \<Rightarrow> pyfloat \<Rightarrow> pyfloat \<Rightarrow> pyfloat \<Rightarrow> pyfloat" where
  "call_expr S0 K0 T0 r0 d1 d2 =
     fl_sub (fl_mul S0 (cdf d1))
            (fl_mul (fl_mul K0 (np_exp (fl_mul (fl_neg r0) T0))) (cdf d2))"

definition put_expr :: "pyfloat \<Rightarrow> pyfloat \<Rightarrow> pyfloat \<Rightarrow> pyfloat \<Rightarrow> pyfloat \<Rightarrow> pyfloat \<Rightarrow> pyfloat" where
  "put_expr S0 K0 T0 r0 d1 d2 =
     fl_sub (fl_mul (fl_mul K0 (np_exp (fl_mul (fl_neg r0) T0))) (cdf (fl_neg d2)))
            (fl_mul S0 (cdf (fl_neg d1)))"

definition reflect_expr :: "pyfloat \<Rightarrow> pyfloat \<Rightarrow> pyfloat \<Rightarrow> error + pyfloat" where
  "reflect_expr S0 q lambda = err_bind (py_pow q (fl_mul (Fin 2) lambda)) (\<lambda>p. Inr (fl_mul S0 p))"

text \<open>
  \<^verbatim>\<open>price_barrier_option\<close>. The result is \<open>Inl\<close> of the exception raised, or \<open>Inr\<close> of the
  value returned: \<open>Some\<close> of a float, or \<open>None\<close> where the source falls off the end of the
  inner \<^verbatim>\<open>if/elif\<close> chain, which has no \<^verbatim>\<open>else\<close>, and so returns \<^verbatim>\<open>None\<close>.
\<close>

definition price_barrier_option ::
  "pricer \<Rightarrow> string \<Rightarrow> string \<Rightarrow> pyfloat option \<Rightarrow> error + pyfloat option" where
  "price_barrier_option self option_type barrier_type barrier =
    (if None \<in> set [S self, K self, T self, r self, sigma self, barrier]
     then Inl (ValueError ''All parameters must be non-None'')
     else
      let S0 = the (S self); K0 = the (K self); T0 = the (T self); r0 = the (r self);
          sigma0 = the (sigma self); H = the barrier
      in
      err_bind (pricer_d1 S0 K0 T0 r0 sigma0) (\<lambda>d1.
      let d2 = pricer_d2 d1 sigma0 T0 in
      err_bind (py_div (fl_sub r0 (fl_mul (Fin 0.5) (fl_pow_int sigma0 2))) (fl_pow_int sigma0 2))
        (\<lambda>lambda.
      err_bind (py_div (fl_pow_int H 2) (fl_mul S0 K0)) (\<lambda>qy.
      let y = fl_add (np_div (np_log qy) (fl_mul sigma0 (np_sqrt T0)))
                     (fl_mul (fl_mul lambda sigma0) (np_sqrt T0)) in
      err_bind (py_div S0 H) (\<lambda>qx1.
      let x1 = fl_add (np_div (np_log qx1) (fl_mul sigma0 (np_sqrt T0)))
                      (fl_mul (fl_mul lambda sigma0) (np_sqrt T0)) in
      err_bind (py_div H S0) (\<lambda>qy1.
      let y1 = fl_add (np_div (np_log qy1) (fl_mul sigma0 (np_sqrt T0)))
                      (fl_mul (fl_mul lambda sigma0) (np_sqrt T0)) in
      if option_type = ''call'' then
        if barrier_type = ''down-and-out'' then
          if fl_le S0 H then Inr (Some (Fin 0))
          else err_bind (reflect_expr S0 qy1 lambda) (\<lambda>A.
            Inr (Some (fl_sub (call_expr S0 K0 T0 r0 d1 d2)
                              (fl_mul A (fl_sub (cdf (fl_neg x1)) (cdf (fl_neg y)))))))
        else if barrier_type = ''up-and-out'' then
          if fl_ge S0 H then Inr (Some (Fin 0))
          else err_bind (reflect_expr S0 qy1 lambda) (\<lambda>A.
            Inr (Some (fl_sub (call_expr S0 K0 T0 r0 d1 d2)
                              (fl_mul A (fl_sub (cdf y) (cdf x1))))))
        else if barrier_type = ''down-and-in'' then
          if fl_le S0 H then Inr (Some (call_expr S0 K0 T0 r0 d1 d2))
          else err_bind (reflect_expr S0 qy1 lambda) (\<lambda>A.
            Inr (Some (fl_mul A (cdf (fl_neg x1)))))
        else if barrier_type = ''up-and-in'' then
          if fl_ge S0 H then Inr (Some (call_expr S0 K0 T0 r0 d1 d2))
          else err_bind (reflect_expr S0 qy1 lambda) (\<lambda>A.
            Inr (Some (fl_mul A (cdf y))))
        else Inr None
      else if option_type = ''put'' then
        if barrier_type = ''down-and-out'' then
          if fl_le S0 H then Inr (Some (Fin 0))
          else err_bind (reflect_expr S0 qy1 lambda) (\<lambda>A.
            Inr (Some (fl_add (put_expr S0 K0 T0 r0 d1 d2)
                              (fl_mul A (fl_sub (cdf (fl_neg y)) (cdf (fl_neg x1)))))))
        else if barrier_type = ''up-and-out'' then
          if fl_ge S0 H then Inr (Some (Fin 0))
          else err_bind (reflect_expr S0 qy1 lambda) (\<lambda>A.
            Inr (Some (fl_add (put_expr S0 K0 T0 r0 d1 d2)
                              (fl_mul A (fl_sub (cdf x1) (cdf y))))))
        else if barrier_type = ''down-and-in'' then
          if fl_le S0 H then Inr (Some (put_expr S0 K0 T0 r0 d1 d2))
          else err_bind (reflect_expr S0 qy1 lambda) (\<lambda>A.
            Inr (Some (fl_mul A (cdf (fl_neg y)))))
        else if barrier_type = ''up-and-in'' then
          if fl_ge S0 H then Inr (Some (put_expr S0 K0 T0 r0 d1 d2))
          else err_bind (reflect_expr S0 qy1 lambda) (\<lambda>A.
            Inr (Some (fl_mul A (cdf x1))))
        else Inr None
      else Inl (ValueError (''Invalid option type: '' @ option_type))))))))"


subsection \<open>Futures and contracts for difference\<close>

text \<open>
  \<^verbatim>\<open>price_futures\<close>. Only the fields \<^verbatim>\<open>S\<close>, \<^verbatim>\<open>T\<close> and \<^verbatim>\<open>r\<close> are tested; the two
  arguments are floats. \<open>price_futures_default\<close> is the call without arguments, where both
  take their default \<^verbatim>\<open>0\<close>.
\<close>

definition price_futures :: "pricer \<Rightarrow> pyfloat \<Rightarrow> pyfloat \<Rightarrow> error + pyfloat" where
  "price_futures self storage_cost convenience_yield =
    (if None \<in> set [S self, T self, r self]
     then Inl (ValueError ''S, T, and r must be non-None'')
     else
      let net_cost = fl_sub storage_cost convenience_yield;
          futures_price =
            fl_mul (the (S self)) (np_exp (fl_mul (fl_add (the (r self)) net_cost) (the (T self))))
      in Inr futures_price)"

definition price_futures_default :: "pricer \<Rightarrow> error + pyfloat" where
  "price_futures_default self = price_futures self (Fin 0) (Fin 0)"

text \<open>
  \<^verbatim>\<open>price_cfd\<close>. Only \<^verbatim>\<open>S\<close> and \<^verbatim>\<open>r\<close> are tested. The divisor \<^verbatim>\<open>365\<close> is a nonzero
  literal, so neither division can raise.
\<close>

definition price_cfd :: "pricer \<Rightarrow> string \<Rightarrow> pyfloat \<Rightarrow> pyfloat \<Rightarrow> error + pyfloat" where
  "price_cfd self position financing_rate holding_period =
    (if None \<in> set [S self, r self]
     then Inl (ValueError ''S and r must be non-None'')
     else
      let daily_price_change =
            fl_mul (the (S self))
              (fl_sub (np_exp (fl_mul (the (r self)) (np_div holding_period (Fin 365)))) (Fin 1));
          financing_cost =
            np_div (fl_mul (fl_mul (the (S self)) financing_rate) holding_period) (Fin 365)
      in
      if position = ''long'' then Inr (fl_sub daily_price_change financing_cost)
      else if position = ''short'' then Inr (fl_sub (fl_neg daily_price_change) financing_cost)
      else Inl (ValueError ''Invalid position type''))"

section \<open>Objects and mutation\<close>

text \<open>
  \<^verbatim>\<open>calculate_greeks\<close> constructs new pricer objects and \<^verbatim>\<open>plot_payoff\<close> assigns to a
  field of a pricer that its caller keeps. Objects therefore live in a store: a list of
  pricers, an object's address being its index. A program takes the store and returns the
  exception or the value, and the store it leaves behind.
\<close>

type_synonym heap = "pricer list"

type_synonym 'a prog = "heap \<Rightarrow> (error + 'a) \<times> heap"

definition st_bind :: "'a prog \<Rightarrow> ('a \<Rightarrow> 'b prog) \<Rightarrow> 'b prog" where
  "st_bind m f = (\<lambda>h. case m h of (Inl e, h') \<Rightarrow> (Inl e, h') | (Inr x, h') \<Rightarrow> f x h')"

definition st_pure :: "error + 'a \<Rightarrow> 'a prog" where
  "st_pure v = (\<lambda>h. (v, h))"

text \<open>Reading an object, constructing one (at a fresh address), assigning to \<^verbatim>\<open>.S\<close>.\<close>

definition st_get :: "nat \<Rightarrow> pricer prog" where
  "st_get a = (\<lambda>h. (Inr (h ! a), h))"

definition st_new :: "pricer \<Rightarrow> nat prog" where
  "st_new obj = (\<lambda>h. (Inr (length h), h @ [obj]))"

definition st_set_S :: "nat \<Rightarrow> pyfloat option \<Rightarrow> unit prog" where
  "st_set_S a v = (\<lambda>h. (Inr (), h[a := (h ! a)\<lparr>S := v\<rparr>]))"

text \<open>The method call \<^verbatim>\<open>obj.price_barrier_option(...)\<close> on the object at an address.\<close>

definition call_price_barrier_option ::
  "nat \<Rightarrow> string \<Rightarrow> string \<Rightarrow> pyfloat option \<Rightarrow> (pyfloat option) prog" where
  "call_price_barrier_option a option_type barrier_type barrier =
     (\<lambda>h. (price_barrier_option (h ! a) option_type barrier_type barrier, h))"

subsection \<open>Greeks by finite differences\<close>

definition eps :: real where
  "eps = 1 / 100000"

text \<open>
  Arithmetic on returned prices. A price can be \<^verbatim>\<open>None\<close>, and then \<^verbatim>\<open>-\<close>, \<^verbatim>\<open>+\<close> and
  \<^verbatim>\<open>*\<close> raise \<^verbatim>\<open>TypeError\<close>.
\<close>

definition val_sub :: "pyfloat option \<Rightarrow> pyfloat option \<Rightarrow> error + pyfloat option" where
  "val_sub a b = (case (a, b) of (Some x, Some y) \<Rightarrow> Inr (Some (fl_sub x y)) | _ \<Rightarrow> Inl TypeError)"

definition val_add :: "pyfloat option \<Rightarrow> pyfloat option \<Rightarrow> error + pyfloat option" where
  "val_add a b = (case (a, b) of (Some x, Some y) \<Rightarrow> Inr (Some (fl_add x y)) | _ \<Rightarrow> Inl TypeError)"

definition val_mul :: "pyfloat option \<Rightarrow> pyfloat option \<Rightarrow> error + pyfloat option" where
  "val_mul a b = (case (a, b) of (Some x, Some y) \<Rightarrow> Inr (Some (fl_mul x y)) | _ \<Rightarrow> Inl TypeError)"

text \<open>Division of a difference of prices by a nonzero step.\<close>

definition val_div :: "pyfloat option \<Rightarrow> pyfloat \<Rightarrow> error + pyfloat" where
  "val_div a b = (case a of Some x \<Rightarrow> Inr (np_div x b) | None \<Rightarrow> Inl TypeError)"

text \<open>
  \<^verbatim>\<open>calculate_greeks\<close>, statement by statement. Every \<^verbatim>\<open>self.X\<close> reads the object at
  \<open>self\<close> in the store of that moment; every \<^verbatim>\<open>AdvancedDerivativesPricing(...)\<close> constructs
  a new object. The dictionary returned is the list of its items in insertion order.
\<close>

definition calculate_greeks ::
  "nat \<Rightarrow> string \<Rightarrow> string \<Rightarrow> pyfloat option \<Rightarrow> ((string \<times> pyfloat) list) prog" where
  "calculate_greeks self option_type barrier_type barrier =
    st_bind (st_get self) (\<lambda>me.
    if None \<in> set [S me, K me, T me, r me, sigma me, barrier]
    then st_pure (Inl (ValueError ''All parameters must be non-None''))
    else
    st_bind (call_price_barrier_option self option_type barrier_type barrier) (\<lambda>price.
    st_bind (st_get self) (\<lambda>me.
    let S_up = fl_add (the (S me)) (Fin eps) in
    st_bind (st_new (AdvancedDerivativesPricing (Some S_up) (K me) (T me) (r me) (sigma me)))
      (\<lambda>o_up.
    st_bind (call_price_barrier_option o_up option_type barrier_type barrier) (\<lambda>price_up.
    st_bind (st_pure (err_bind (val_sub price_up price) (\<lambda>d. val_div d (Fin eps)))) (\<lambda>delta.
    st_bind (st_get self) (\<lambda>me.
    let S_down = fl_sub (the (S me)) (Fin eps) in
    st_bind (st_new (AdvancedDerivativesPricing (Some S_down) (K me) (T me) (r me) (sigma me)))
      (\<lambda>o_down.
    st_bind (call_price_barrier_option o_down option_type barrier_type barrier) (\<lambda>price_down.
    st_bind (st_pure
      (err_bind (val_mul (Some (Fin 2)) price) (\<lambda>p2.
       err_bind (val_sub price_up p2) (\<lambda>d.
       err_bind (val_add d price_down) (\<lambda>n. val_div n (fl_pow_int (Fin eps) 2)))))) (\<lambda>gamma.
    st_bind (st_get self) (\<lambda>me.
    let sigma_up = fl_add (the (sigma me)) (Fin eps) in
    st_bind (st_new (AdvancedDerivativesPricing (S me) (K me) (T me) (r me) (Some sigma_up)))
      (\<lambda>o_sigma.
    st_bind (call_price_barrier_option o_sigma option_type barrier_type barrier)
      (\<lambda>price_sigma_up.
    st_bind (st_pure (err_bind (val_sub price_sigma_up price) (\<lambda>d. val_div d (Fin eps))))
      (\<lambda>vega.
    st_bind (st_get self) (\<lambda>me.
    let T_down = py_max (fl_sub (the (T me)) (np_div (Fin eps) (Fin 365))) (Fin eps) in
    st_bind (st_new (AdvancedDerivativesPricing (S me) (K me) (Some T_down) (r me) (sigma me)))
      (\<lambda>o_T.
    st_bind (call_price_barrier_option o_T option_type barrier_type barrier) (\<lambda>price_T_down.
    st_bind (st_pure
      (err_bind (val_sub price_T_down price) (\<lambda>d. val_div d (np_div (Fin eps) (Fin 365)))))
      (\<lambda>theta.
    st_bind (st_get self) (\<lambda>me.
    let r_up = fl_add (the (r me)) (Fin eps) in
    st_bind (st_new (AdvancedDerivativesPricing (S me) (K me) (T me) (Some r_up) (sigma me)))
      (\<lambda>o_r.
    st_bind (call_price_barrier_option o_r option_type barrier_type barrier) (\<lambda>price_r_up.
    st_bind (st_pure (err_bind (val_sub price_r_up price) (\<lambda>d. val_div d (Fin eps)))) (\<lambda>rho.
    st_pure (Inr [(''Delta'', delta), (''Gamma'', gamma), (''Vega'', vega),
                  (''Theta'', theta), (''Rho'', rho)])))))))))))))))))))))))"

subsection \<open>The payoff sweep\<close>

text \<open>
  \<^verbatim>\<open>np.linspace(start, stop, num)\<close>: the step is \<^verbatim>\<open>(stop - start) / (num - 1)\<close>, sample
  \<open>i\<close> is \<^verbatim>\<open>i * step + start\<close>, and the last sample is then overwritten with \<^verbatim>\<open>stop\<close>.
\<close>

definition np_linspace :: "pyfloat \<Rightarrow> pyfloat \<Rightarrow> nat \<Rightarrow> pyfloat list" where
  "np_linspace start stop num =
    (let step = np_div (fl_sub stop start) (Fin (real (num - 1)))
     in (map (\<lambda>i. fl_add (fl_mul (Fin (real i)) step) start) [0..<num])[num - 1 := stop])"

text \<open>
  The loop of \<^verbatim>\<open>plot_payoff\<close>: each sample is assigned to \<^verbatim>\<open>pricer.S\<close>, and the price of
  the pricer so changed is appended.
\<close>

fun sweep :: "nat \<Rightarrow> string \<Rightarrow> string \<Rightarrow> pyfloat option \<Rightarrow> pyfloat list \<Rightarrow> ((pyfloat option) list) prog" where
  "sweep pricer option_type barrier_type barrier [] = st_pure (Inr [])"
| "sweep pricer option_type barrier_type barrier (s # ss) =
     st_bind (st_set_S pricer (Some s)) (\<lambda>_.
     st_bind (call_price_barrier_option pricer option_type barrier_type barrier) (\<lambda>p.
     st_bind (sweep pricer option_type barrier_type barrier ss) (\<lambda>ps.
     st_pure (Inr (p # ps)))))"

text \<open>
  \<^verbatim>\<open>plot_payoff\<close>, up to the call of \<^verbatim>\<open>ax.plot(stock_prices, option_prices)\<close>: the value
  is the curve handed to the plot, as the list of its points. \<^verbatim>\<open>pricer.K * 0.5\<close> raises
  \<^verbatim>\<open>TypeError\<close> on a strike that is \<^verbatim>\<open>None\<close>. The drawing calls are not modelled.
\<close>

definition plot_payoff ::
  "nat \<Rightarrow> string \<Rightarrow> string \<Rightarrow> pyfloat option \<Rightarrow> ((pyfloat \<times> pyfloat option) list) prog" where
  "plot_payoff pricer option_type barrier_type barrier =
    st_bind (st_get pricer) (\<lambda>p.
    case K p of
      None \<Rightarrow> st_pure (Inl TypeError)
    | Some K0 \<Rightarrow>
        let stock_prices = np_linspace (fl_mul K0 (Fin 0.5)) (fl_mul K0 (Fin 1.5)) 100 in
        st_bind (sweep pricer option_type barrier_type barrier stock_prices) (\<lambda>option_prices.
        st_pure (Inr (zip stock_prices option_prices))))"


section \<open>The specification's table of barrier prices\<close>
















text \<open>A pricer all of whose fields hold finite floats.\<close>

definition fin_pricer :: "real \<Rightarrow> real \<Rightarrow> real \<Rightarrow> real \<Rightarrow> real \<Rightarrow> pricer" where
  "fin_pricer s k t rate vol =
     AdvancedDerivativesPricing (Some (Fin s)) (Some (Fin k)) (Some (Fin t)) (Some (Fin rate))
       (Some (Fin vol))"


section \<open>Evaluation on finite floats\<close>

lemma err_bind_simps [simp]:
  "err_bind (Inr x) f = f x"
  "err_bind (Inl e) f = Inl e"
  by (simp_all add: err_bind_def)

lemma fl_sub_fin [simp]: "fl_sub (Fin a) (Fin b) = Fin (a - b)"
  by (simp add: fl_sub_def)

lemma fl_pow_int_two [simp]: "fl_pow_int (Fin a) 2 = Fin (a\<^sup>2)"
  by (simp add: numeral_2_eq_2 power2_eq_square)





lemma price_futures_fin:
  "price_futures (AdvancedDerivativesPricing (Some (Fin s)) k0 (Some (Fin t)) (Some (Fin rate)) v0)
     (Fin sc) (Fin cy) = Inr (Fin (s * exp ((rate + sc - cy) * t)))"
  by (simp add: price_futures_def AdvancedDerivativesPricing_def Let_def algebra_simps)

lemma price_cfd_fin:
  "price_cfd (AdvancedDerivativesPricing (Some (Fin s)) k0 t0 (Some (Fin rate)) v0) position
     (Fin f) (Fin d) =
    (if position = ''long'' then Inr (Fin (s * (exp (rate * (d / 365)) - 1) - s * f * d / 365))
     else if position = ''short''
       then Inr (Fin (- (s * (exp (rate * (d / 365)) - 1)) - s * f * d / 365))
     else Inl (ValueError ''Invalid position type''))"
  by (simp add: price_cfd_def AdvancedDerivativesPricing_def Let_def)

lemma price_cfd_invalid:
  assumes "position \<noteq> ''long''" "position \<noteq> ''short''"
  shows "price_cfd (AdvancedDerivativesPricing (Some s0) k0 t0 (Some r0) v0) position f d
         = Inl (ValueError ''Invalid position type'')"
  using assms by (simp add: price_cfd_def AdvancedDerivativesPricing_def Let_def)

section \<open>The claims\<close>



text \<open>
  C6. On finite floats \<open>price_futures\<close> returns \<open>S \<cdot> exp ((r + storageCost -
  convenienceYield) \<cdot> T)\<close>; with both optional arguments at their default it returns
  \<open>S \<cdot> exp (r \<cdot> T)\<close>; and for \<open>S = 100\<close>, \<open>r = 0.05\<close>, storage cost \<open>0.02\<close>, convenience yield
  \<open>0.01\<close> and \<open>T = 1\<close> it returns \<open>100 \<cdot> exp 0.06\<close>.
\<close>

theorem price_futures_cost_of_carry:
  "price_futures (AdvancedDerivativesPricing (Some (Fin s)) k0 (Some (Fin t)) (Some (Fin rate)) v0)
     (Fin sc) (Fin cy) = Inr (Fin (s * exp ((rate + sc - cy) * t)))
   \<and> price_futures_default
       (AdvancedDerivativesPricing (Some (Fin s)) k0 (Some (Fin t)) (Some (Fin rate)) v0)
     = Inr (Fin (s * exp (rate * t)))
   \<and> price_futures
       (AdvancedDerivativesPricing (Some (Fin 100)) k0 (Some (Fin 1)) (Some (Fin (5 / 100))) v0)
       (Fin (2 / 100)) (Fin (1 / 100)) = Inr (Fin (100 * exp (6 / 100)))"
  by (simp add: price_futures_fin price_futures_default_def)

theorem price_futures_cost_of_carry_witness:
  "price_futures (fin_pricer 50 40 2 (3 / 100) (1 / 4)) (Fin (1 / 100)) (Fin (4 / 100))
     = Inr (Fin 50)
   \<and> price_futures_default (fin_pricer 50 40 2 0 (1 / 4)) = Inr (Fin 50)"
  using price_futures_cost_of_carry
      [of 50 "Some (Fin 40)" 2 "3 / 100" "Some (Fin (1 / 4))" "1 / 100" "4 / 100"]
    price_futures_cost_of_carry [of 50 "Some (Fin 40)" 2 0 "Some (Fin (1 / 4))" 0 0]
  by (simp add: fin_pricer_def)

text \<open>
  C7. For finite spot, rate, financing rate and holding period, the sum of the long and the
  short result of \<open>price_cfd\<close> is \<open>-2 \<cdot> S \<cdot> financingRate \<cdot> holdingPeriod / 365\<close>; and
  for every position other than \<^verbatim>\<open>long\<close> and \<^verbatim>\<open>short\<close>, \<open>price_cfd\<close> raises the
  \<^verbatim>\<open>ValueError\<close> of an invalid position, whatever floats it is given.
\<close>

theorem price_cfd_long_short:
  "err_bind (price_cfd (AdvancedDerivativesPricing (Some (Fin s)) k0 t0 (Some (Fin rate)) v0)
               ''long'' (Fin f) (Fin d)) (\<lambda>long.
   err_bind (price_cfd (AdvancedDerivativesPricing (Some (Fin s)) k0 t0 (Some (Fin rate)) v0)
               ''short'' (Fin f) (Fin d)) (\<lambda>short.
   Inr (fl_add long short))) = Inr (Fin (- 2 * (s * f * d / 365)))
   \<and> (position \<noteq> ''long'' \<and> position \<noteq> ''short'' \<longrightarrow>
        price_cfd (AdvancedDerivativesPricing (Some s0) k1 t1 (Some r0) v1) position f0 d0
        = Inl (ValueError ''Invalid position type''))"
  by (simp add: price_cfd_fin price_cfd_invalid)

theorem price_cfd_long_short_witness:
  "err_bind (price_cfd (fin_pricer 100 100 1 (5 / 100) (2 / 10)) ''long'' (Fin (1 / 1000)) (Fin 30))
     (\<lambda>long.
   err_bind (price_cfd (fin_pricer 100 100 1 (5 / 100) (2 / 10)) ''short'' (Fin (1 / 1000)) (Fin 30))
     (\<lambda>short.
   Inr (fl_add long short))) = Inr (Fin (- 6 / 365))
   \<and> price_cfd (fin_pricer 100 100 1 (5 / 100) (2 / 10)) ''flat'' NaN PInf
        = Inl (ValueError ''Invalid position type'')"
  using price_cfd_long_short [of 100 "Some (Fin 100)" "Some (Fin 1)" "5 / 100" "Some (Fin (2 / 10))"
      "1 / 1000" 30 "''flat''" "Fin 100" "Some (Fin 100)" "Some (Fin 1)" "Fin (5 / 100)"
      "Some (Fin (2 / 10))" NaN PInf]
  by (simp add: fin_pricer_def)

text \<open>
  C10. \<open>price_cfd\<close> reads only the fields \<open>S\<close> and \<open>r\<close>: two pricers that agree on both give
  the same result for the same arguments, whatever their \<open>K\<close>, \<open>T\<close> and \<open>sigma\<close>; and it
  returns a price when \<open>K\<close>, \<open>T\<close> and \<open>sigma\<close> are all \<^verbatim>\<open>None\<close>.
\<close>

theorem price_cfd_reads_only_S_and_r:
  "(S e1 = S e2 \<and> r e1 = r e2 \<longrightarrow>
      price_cfd e1 position financing_rate holding_period
      = price_cfd e2 position financing_rate holding_period)
   \<and> price_cfd (AdvancedDerivativesPricing (Some (Fin s)) None None (Some (Fin rate)) None)
        ''long'' (Fin f) (Fin d)
      = Inr (Fin (s * (exp (rate * (d / 365)) - 1) - s * f * d / 365))"
  by (simp add: price_cfd_fin) (simp add: price_cfd_def)

theorem price_cfd_reads_only_S_and_r_witness:
  "price_cfd (fin_pricer 100 100 1 (5 / 100) (2 / 10)) ''short'' (Fin (1 / 1000)) (Fin 30)
     = price_cfd (AdvancedDerivativesPricing (Some (Fin 100)) None (Some NaN) (Some (Fin (5 / 100)))
         (Some (Fin 0))) ''short'' (Fin (1 / 1000)) (Fin 30)
   \<and> price_cfd (AdvancedDerivativesPricing (Some (Fin 100)) None None (Some (Fin 0)) None)
        ''long'' (Fin (1 / 1000)) (Fin 365) = Inr (Fin (- (1 / 10)))"
  using price_cfd_reads_only_S_and_r
      [of "fin_pricer 100 100 1 (5 / 100) (2 / 10)"
          "AdvancedDerivativesPricing (Some (Fin 100)) None (Some NaN) (Some (Fin (5 / 100)))
             (Some (Fin 0))"
          "''short''" "Fin (1 / 1000)" "Fin 30" 100 0 "1 / 1000" 365]
  by (simp add: fin_pricer_def AdvancedDerivativesPricing_def)

end
